theory Spec2Isabelle
  imports Main "HOL-Library.Finite_Map" "HOL-Library.Sublist"
begin

section \<open>JavaScript values\<close>

text \<open>
  The client is TypeScript over axios. Response bodies are parsed JSON, so at run time they
  are arbitrary JavaScript values whatever the declared type says. Objects are finite maps
  from property names to values (property order is not modelled); \<open>JUndefined\<close> is the
  value of a missing property. Strings are lists of code units. Numbers are the safe
  integers, of magnitude below \<open>2 ^ 53\<close>: each of them is a JavaScript number and prints as
  its plain decimal digits. Other numbers are outside the model.
\<close>

typedef safe_integer = "{n :: int. - (2 ^ 53 - 1) \<le> n \<and> n \<le> 2 ^ 53 - 1}"
  morphisms int_of_safe safe_of_int
  by (rule exI [of _ 0]) simp

setup_lifting type_definition_safe_integer

instantiation safe_integer :: equal
begin
lift_definition equal_safe_integer :: "safe_integer \<Rightarrow> safe_integer \<Rightarrow> bool" is "(=)" .
instance
  by standard (transfer, simp)
end

datatype jsval =
    JUndefined
  | JNull
  | JBool bool
  | JNum safe_integer
  | JStr string
  | JArr "jsval list"
  | JObj "(string, jsval) fmap"

type_synonym obj = "(string, jsval) fmap"

text \<open>
  What can be thrown and caught: an axios error (\<open>axios.isAxiosError\<close> holds) with its
  message and the response it may carry, or any other \<open>Error\<close> object with its name and
  message.
\<close>

record axios_response =
  status :: nat
  data :: jsval

datatype thrown =
    AxiosError string "axios_response option"
  | Error string string

fun isAxiosError :: "thrown \<Rightarrow> bool" where
  "isAxiosError (AxiosError m r) = True"
| "isAxiosError (Error n m) = False"

subsection \<open>String conversion in template literals\<close>

fun decimal :: "nat \<Rightarrow> string" where
  "decimal n =
     (if n < 10 then [char_of (48 + n)]
      else decimal (n div 10) @ [char_of (48 + n mod 10)])"

fun join :: "string \<Rightarrow> string list \<Rightarrow> string" where
  "join sep [] = []"
| "join sep [x] = x"
| "join sep (x # y # ys) = x @ sep @ join sep (y # ys)"

text \<open>\<open>`${v}`\<close>: the abstract operation ToString. An array joins its elements with commas,
  \<open>null\<close> and \<open>undefined\<close> elements printing as nothing.\<close>

fun toString :: "jsval \<Rightarrow> string" where
  "toString JUndefined = ''undefined''"
| "toString JNull = ''null''"
| "toString (JBool b) = (if b then ''true'' else ''false'')"
| "toString (JNum n) =
     (if int_of_safe n < 0 then ''-'' @ decimal (nat (- int_of_safe n))
      else decimal (nat (int_of_safe n)))"
| "toString (JStr s) = s"
| "toString (JArr xs) =
     join '','' (map (\<lambda>x. if x = JUndefined \<or> x = JNull then [] else toString x) xs)"
| "toString (JObj m) = ''[object Object]''"

text \<open>\<open>`${err}`\<close> for an \<open>Error\<close> object: \<open>Error.prototype.toString\<close>.\<close>

definition error_toString :: "string \<Rightarrow> string \<Rightarrow> string" where
  "error_toString n m = (if n = [] then m else if m = [] then n else n @ '': '' @ m)"

subsection \<open>Property access, method calls and spread\<close>

definition quoted :: "string \<Rightarrow> string" where
  "quoted k = [CHR 0x27] @ k @ [CHR 0x27]"

text \<open>\<open>v.k\<close> for a property name \<open>k\<close> that no prototype defines (\<open>error\<close>,
  \<open>accountAddresses\<close>): reading from \<open>undefined\<close> or \<open>null\<close> throws a TypeError, an
  object gives the property or \<open>undefined\<close>, every other value gives \<open>undefined\<close>.
  TypeError messages are worded as Node's engine words them.\<close>

fun get_prop :: "jsval \<Rightarrow> string \<Rightarrow> thrown + jsval" where
  "get_prop JUndefined k =
     Inl (Error ''TypeError'' (''Cannot read properties of undefined (reading '' @ quoted k @ '')''))"
| "get_prop JNull k =
     Inl (Error ''TypeError'' (''Cannot read properties of null (reading '' @ quoted k @ '')''))"
| "get_prop (JObj m) k = Inr (case fmlookup m k of None \<Rightarrow> JUndefined | Some v \<Rightarrow> v)"
| "get_prop v k = Inr JUndefined"

text \<open>\<open>v.concat(ys)\<close> with \<open>ys\<close> an array: \<open>Array.prototype.concat\<close> appends the
  elements, \<open>String.prototype.concat\<close> appends the array's string conversion, and no other
  JSON value has a callable \<open>concat\<close>.\<close>

fun call_concat :: "jsval \<Rightarrow> jsval list \<Rightarrow> thrown + jsval" where
  "call_concat JUndefined ys =
     Inl (Error ''TypeError'' (''Cannot read properties of undefined (reading '' @ quoted ''concat'' @ '')''))"
| "call_concat JNull ys =
     Inl (Error ''TypeError'' (''Cannot read properties of null (reading '' @ quoted ''concat'' @ '')''))"
| "call_concat (JArr xs) ys = Inr (JArr (xs @ ys))"
| "call_concat (JStr s) ys = Inr (JStr (s @ toString (JArr ys)))"
| "call_concat v ys =
     Inl (Error ''TypeError'' ''webhook.accountAddresses.concat is not a function'')"

text \<open>\<open>v.length\<close>; \<open>None\<close> is \<open>undefined\<close>, which compares false with every number.\<close>

fun js_length :: "jsval \<Rightarrow> nat option" where
  "js_length (JArr xs) = Some (length xs)"
| "js_length (JStr s) = Some (length s)"
| "js_length v = None"

text \<open>\<open>v.k = x\<close> on an object. The one assignment of the client is reached only with an
  object (lemma \<open>concat_only_on_object\<close>); other values are returned as they are.\<close>

fun set_prop :: "jsval \<Rightarrow> string \<Rightarrow> jsval \<Rightarrow> jsval" where
  "set_prop (JObj m) k x = JObj (fmupd k x m)"
| "set_prop v k x = v"

text \<open>The own enumerable properties that \<open>{...v}\<close> copies: those of an object, the indices of
  an array or a string, nothing for the other values.\<close>

fun own_props :: "jsval \<Rightarrow> obj" where
  "own_props (JObj m) = m"
| "own_props (JArr xs) = fmap_of_list (zip (map decimal [0..<length xs]) xs)"
| "own_props (JStr s) = fmap_of_list (zip (map decimal [0..<length s]) (map (\<lambda>c. JStr [c]) s))"
| "own_props v = fmempty"

section \<open>The HTTP transport\<close>

text \<open>
  axios is the external collaborator. A transport answers a request in a server state: it
  rejects with a thrown value or resolves with a response, and leaves a new server state.
  Every call made through axios is recorded, with its outcome, in the order it is made.
\<close>

datatype http_method = GET | POST | PUT | DELETE

record request =
  httpMethod :: http_method
  url :: string
  body :: "jsval option"

type_synonym outcome = "thrown + axios_response"

type_synonym 'srv transport = "request \<Rightarrow> 'srv \<Rightarrow> outcome \<times> 'srv"

record 'srv world =
  server :: 'srv
  calls :: "(request \<times> outcome) list"

definition axios :: "'srv transport \<Rightarrow> request \<Rightarrow> 'srv world \<Rightarrow> outcome \<times> 'srv world" where
  "axios T r w =
     (case T r (server w) of
        (out, s') \<Rightarrow> (out, \<lparr>server = s', calls = calls w @ [(r, out)]\<rparr>))"

definition axios_get :: "'srv transport \<Rightarrow> string \<Rightarrow> 'srv world \<Rightarrow> outcome \<times> 'srv world" where
  "axios_get T u = axios T \<lparr>httpMethod = GET, url = u, body = None\<rparr>"

definition axios_post :: "'srv transport \<Rightarrow> string \<Rightarrow> jsval \<Rightarrow> 'srv world \<Rightarrow> outcome \<times> 'srv world" where
  "axios_post T u b = axios T \<lparr>httpMethod = POST, url = u, body = Some b\<rparr>"

definition axios_put :: "'srv transport \<Rightarrow> string \<Rightarrow> jsval \<Rightarrow> 'srv world \<Rightarrow> outcome \<times> 'srv world" where
  "axios_put T u b = axios T \<lparr>httpMethod = PUT, url = u, body = Some b\<rparr>"

definition axios_delete :: "'srv transport \<Rightarrow> string \<Rightarrow> 'srv world \<Rightarrow> outcome \<times> 'srv world" where
  "axios_delete T u = axios T \<lparr>httpMethod = DELETE, url = u, body = None\<rparr>"

section \<open>The client\<close>

definition API_URL_V0 :: string where
  "API_URL_V0 = ''https://api.helius.xyz/v0''"

record Helius =
  apiKey :: string

text \<open>
  The catch block that every method repeats with its own literal:
  \<^verbatim>\<open>if (axios.isAxiosError(err)) throw new Error(`<prefix>${err.response?.data.error}`)
  else throw new Error(`<prefix>${err}`)\<close>
  The optional chain stops at a missing response and gives \<open>undefined\<close>; with a response,
  \<open>.data.error\<close> is an ordinary property read, whose TypeError leaves the catch block as it
  is.
\<close>

fun rethrow :: "string \<Rightarrow> thrown \<Rightarrow> thrown" where
  "rethrow pre (AxiosError m None) = Error ''Error'' (pre @ toString JUndefined)"
| "rethrow pre (AxiosError m (Some r)) =
     (case get_prop (data r) ''error'' of
        Inl e \<Rightarrow> e
      | Inr v \<Rightarrow> Error ''Error'' (pre @ toString v))"
| "rethrow pre (Error n m) = Error ''Error'' (pre @ error_toString n m)"

definition catch :: "string \<Rightarrow> (thrown + 'a) \<times> 'w \<Rightarrow> (thrown + 'a) \<times> 'w" where
  "catch pre res =
     (case res of
        (Inl err, w) \<Rightarrow> (Inl (rethrow pre err), w)
      | (Inr v, w) \<Rightarrow> (Inr v, w))"

text \<open>\<open>const { data } = await call; return data\<close>\<close>

definition return_data :: "outcome \<times> 'w \<Rightarrow> (thrown + jsval) \<times> 'w" where
  "return_data res =
     (case res of
        (Inl err, w) \<Rightarrow> (Inl err, w)
      | (Inr r, w) \<Rightarrow> (Inr (data r), w))"

definition webhooks_url :: "Helius \<Rightarrow> string" where
  "webhooks_url this = API_URL_V0 @ ''/webhooks?api-key='' @ apiKey this"

definition webhook_url :: "Helius \<Rightarrow> string \<Rightarrow> string" where
  "webhook_url this webhookID = API_URL_V0 @ ''/webhooks/'' @ webhookID @ ''?api-key='' @ apiKey this"

definition getAllWebhooks ::
  "'srv transport \<Rightarrow> Helius \<Rightarrow> 'srv world \<Rightarrow> (thrown + jsval) \<times> 'srv world" where
  "getAllWebhooks T this w =
     catch ''error calling getWebhooks: '' (return_data (axios_get T (webhooks_url this) w))"

definition getWebhookByID ::
  "'srv transport \<Rightarrow> Helius \<Rightarrow> string \<Rightarrow> 'srv world \<Rightarrow> (thrown + jsval) \<times> 'srv world" where
  "getWebhookByID T this webhookID w =
     catch ''error during getWebhookByID: ''
       (return_data (axios_get T (webhook_url this webhookID) w))"

definition createWebhook ::
  "'srv transport \<Rightarrow> Helius \<Rightarrow> obj \<Rightarrow> 'srv world \<Rightarrow> (thrown + jsval) \<times> 'srv world" where
  "createWebhook T this createWebhookRequest w =
     catch ''error during createWebhook: ''
       (return_data (axios_post T (webhooks_url this) (JObj createWebhookRequest) w))"

definition deleteWebhook ::
  "'srv transport \<Rightarrow> Helius \<Rightarrow> string \<Rightarrow> 'srv world \<Rightarrow> (thrown + bool) \<times> 'srv world" where
  "deleteWebhook T this webhookID w =
     catch ''error during deleteWebhook: ''
       (case axios_delete T (webhook_url this webhookID) w of
          (Inl err, w') \<Rightarrow> (Inl err, w')
        | (Inr r, w') \<Rightarrow> (Inr True, w'))"

text \<open>The body of \<open>editWebhook\<close>'s \<open>try\<close>: the fetch goes through \<open>getWebhookByID\<close>, which
  has already wrapped its own failure; the write body is \<open>{...webhook, ...editWebhookRequest}\<close>.\<close>

definition editWebhook_try ::
  "'srv transport \<Rightarrow> Helius \<Rightarrow> string \<Rightarrow> obj \<Rightarrow> 'srv world \<Rightarrow> (thrown + jsval) \<times> 'srv world" where
  "editWebhook_try T this webhookID editWebhookRequest w =
     (case getWebhookByID T this webhookID w of
        (Inl err, w1) \<Rightarrow> (Inl err, w1)
      | (Inr webhook, w1) \<Rightarrow>
          return_data (axios_put T (webhook_url this webhookID)
            (JObj (own_props webhook ++\<^sub>f editWebhookRequest)) w1))"

definition editWebhook ::
  "'srv transport \<Rightarrow> Helius \<Rightarrow> string \<Rightarrow> obj \<Rightarrow> 'srv world \<Rightarrow> (thrown + jsval) \<times> 'srv world" where
  "editWebhook T this webhookID editWebhookRequest w =
     catch ''error during editWebhook: '' (editWebhook_try T this webhookID editWebhookRequest w)"

definition capacity_message :: string where
  "capacity_message = ''a single webhook cannot contain more than 10,000 addresses''"

text \<open>The body of \<open>appendAddressesToWebhook\<close>'s \<open>try\<close>, statement by statement.\<close>

definition appendAddressesToWebhook_try ::
  "'srv transport \<Rightarrow> Helius \<Rightarrow> string \<Rightarrow> string list \<Rightarrow> 'srv world \<Rightarrow> (thrown + jsval) \<times> 'srv world" where
  "appendAddressesToWebhook_try T this webhookID newAccountAddresses w =
     (case getWebhookByID T this webhookID w of
        (Inl err, w1) \<Rightarrow> (Inl err, w1)
      | (Inr webhook, w1) \<Rightarrow>
          (case get_prop webhook ''accountAddresses'' of
             Inl e \<Rightarrow> (Inl e, w1)
           | Inr existing \<Rightarrow>
               (case call_concat existing (map JStr newAccountAddresses) of
                  Inl e \<Rightarrow> (Inl e, w1)
                | Inr accountAddresses \<Rightarrow>
                    (let webhook' = set_prop webhook ''accountAddresses'' accountAddresses in
                     if (case js_length accountAddresses of None \<Rightarrow> False | Some n \<Rightarrow> n > 10000)
                     then (Inl (Error ''Error'' capacity_message), w1)
                     else return_data (axios_put T (webhook_url this webhookID)
                            (JObj (own_props webhook')) w1)))))"

definition appendAddressesToWebhook ::
  "'srv transport \<Rightarrow> Helius \<Rightarrow> string \<Rightarrow> string list \<Rightarrow> 'srv world \<Rightarrow> (thrown + jsval) \<times> 'srv world" where
  "appendAddressesToWebhook T this webhookID newAccountAddresses w =
     catch ''error during appendAddressesToWebhook: ''
       (appendAddressesToWebhook_try T this webhookID newAccountAddresses w)"

section \<open>Vocabulary of the properties\<close>

text \<open>The six operations as one type, so that a property can speak of each of them;
  \<open>operation_name\<close> is the name the operation's catch block puts into its message.\<close>

datatype operation =
    GetAllWebhooks
  | GetWebhookByID string
  | CreateWebhook obj
  | DeleteWebhook string
  | EditWebhook string obj
  | AppendAddressesToWebhook string "string list"

fun operation_name :: "operation \<Rightarrow> string" where
  "operation_name GetAllWebhooks = ''getWebhooks''"
| "operation_name (GetWebhookByID i) = ''getWebhookByID''"
| "operation_name (CreateWebhook q) = ''createWebhook''"
| "operation_name (DeleteWebhook i) = ''deleteWebhook''"
| "operation_name (EditWebhook i q) = ''editWebhook''"
| "operation_name (AppendAddressesToWebhook i xs) = ''appendAddressesToWebhook''"

fun invoke ::
  "'srv transport \<Rightarrow> Helius \<Rightarrow> operation \<Rightarrow> 'srv world \<Rightarrow> (thrown + jsval) \<times> 'srv world" where
  "invoke T this GetAllWebhooks w = getAllWebhooks T this w"
| "invoke T this (GetWebhookByID i) w = getWebhookByID T this i w"
| "invoke T this (CreateWebhook q) w = createWebhook T this q w"
| "invoke T this (DeleteWebhook i) w =
     (case deleteWebhook T this i w of
        (Inl e, w') \<Rightarrow> (Inl e, w')
      | (Inr b, w') \<Rightarrow> (Inr (JBool b), w'))"
| "invoke T this (EditWebhook i q) w = editWebhook T this i q w"
| "invoke T this (AppendAddressesToWebhook i xs) w = appendAddressesToWebhook T this i xs w"

text \<open>A rejection is tagged when it is a plain \<open>Error\<close> whose message contains the operation
  name and the cause text.\<close>

definition tagged :: "string \<Rightarrow> string \<Rightarrow> thrown + 'a \<Rightarrow> bool" where
  "tagged opname cause res =
     (case res of
        Inl (Error n msg) \<Rightarrow> n = ''Error'' \<and> sublist opname msg \<and> sublist cause msg
      | Inl (AxiosError m r) \<Rightarrow> False
      | Inr v \<Rightarrow> False)"

text \<open>The two requests of the read-modify-write protocols.\<close>

definition fetch_request :: "Helius \<Rightarrow> string \<Rightarrow> request" where
  "fetch_request this webhookID = \<lparr>httpMethod = GET, url = webhook_url this webhookID, body = None\<rparr>"

definition write_request :: "Helius \<Rightarrow> string \<Rightarrow> jsval \<Rightarrow> request" where
  "write_request this webhookID b = \<lparr>httpMethod = PUT, url = webhook_url this webhookID, body = Some b\<rparr>"

text \<open>The first call an operation makes. For \<open>editWebhook\<close> and
  \<open>appendAddressesToWebhook\<close> it is the fetch, made inside \<open>getWebhookByID\<close>.\<close>

fun first_request :: "Helius \<Rightarrow> operation \<Rightarrow> request" where
  "first_request this GetAllWebhooks = \<lparr>httpMethod = GET, url = webhooks_url this, body = None\<rparr>"
| "first_request this (GetWebhookByID i) = fetch_request this i"
| "first_request this (CreateWebhook q) =
     \<lparr>httpMethod = POST, url = webhooks_url this, body = Some (JObj q)\<rparr>"
| "first_request this (DeleteWebhook i) =
     \<lparr>httpMethod = DELETE, url = webhook_url this i, body = None\<rparr>"
| "first_request this (EditWebhook i q) = fetch_request this i"
| "first_request this (AppendAddressesToWebhook i xs) = fetch_request this i"

text \<open>The message an operation throws for a cause text when its first call is rejected: the
  literal of its catch block, and for the two operations that fetch through
  \<open>getWebhookByID\<close> the string conversion of the \<open>Error\<close> that method has thrown.\<close>

fun thrown_message :: "operation \<Rightarrow> string \<Rightarrow> string" where
  "thrown_message GetAllWebhooks cause = ''error calling getWebhooks: '' @ cause"
| "thrown_message (GetWebhookByID i) cause = ''error during getWebhookByID: '' @ cause"
| "thrown_message (CreateWebhook q) cause = ''error during createWebhook: '' @ cause"
| "thrown_message (DeleteWebhook i) cause = ''error during deleteWebhook: '' @ cause"
| "thrown_message (EditWebhook i q) cause =
     ''error during editWebhook: Error: error during getWebhookByID: '' @ cause"
| "thrown_message (AppendAddressesToWebhook i xs) cause =
     ''error during appendAddressesToWebhook: Error: error during getWebhookByID: '' @ cause"

text \<open>A server-reported error: an axios error whose response body is an object with the
  string \<open>X\<close> in its \<open>error\<close> field.\<close>

definition structured_error :: "thrown \<Rightarrow> string \<Rightarrow> bool" where
  "structured_error err X =
     (case err of
        AxiosError m (Some rsp) \<Rightarrow>
          (case data rsp of JObj d \<Rightarrow> fmlookup d ''error'' = Some (JStr X) | v \<Rightarrow> False)
      | AxiosError m None \<Rightarrow> False
      | Error n m \<Rightarrow> False)"


subsection \<open>Concrete backends\<close>

text \<open>A client, an idle world, a backend that rejects every call with one thrown value, and a
  backend that stores a single webhook: GET resolves with it, PUT of an object replaces it,
  anything else is answered with status 400 and an \<open>error\<close> field.\<close>

definition demo_client :: Helius where
  "demo_client = \<lparr>apiKey = ''key''\<rparr>"

definition idle :: "'srv \<Rightarrow> 'srv world" where
  "idle s = \<lparr>server = s, calls = []\<rparr>"

definition rejecting :: "thrown \<Rightarrow> unit transport" where
  "rejecting err rq s = (Inl err, s)"

definition webhook_store :: "obj transport" where
  "webhook_store rq s =
     (case (httpMethod rq, body rq) of
        (GET, b) \<Rightarrow> (Inr \<lparr>status = 200, data = JObj s\<rparr>, s)
      | (PUT, Some (JObj b)) \<Rightarrow> (Inr \<lparr>status = 200, data = JObj b\<rparr>, b)
      | (m, b) \<Rightarrow>
          (Inl (AxiosError ''Request failed with status code 400''
                 (Some \<lparr>status = 400, data = JObj (fmap_of_list [(''error'', JStr ''bad request'')])\<rparr>)), s))"

text \<open>A backend that resolves every GET with its stored webhook and rejects every other call
  with one thrown value.\<close>

definition rejecting_writes :: "thrown \<Rightarrow> obj transport" where
  "rejecting_writes err rq s =
     (case httpMethod rq of
        GET \<Rightarrow> (Inr \<lparr>status = 200, data = JObj s\<rparr>, s)
      | m \<Rightarrow> (Inl err, s))"

definition sample_webhook :: "jsval list \<Rightarrow> obj" where
  "sample_webhook E =
     fmap_of_list [(''webhookID'', JStr ''abc''), (''webhookURL'', JStr ''https://example.com/hook''),
                   (''accountAddresses'', JArr E)]"

definition url_patch :: obj where
  "url_patch = fmap_of_list [(''webhookURL'', JStr ''https://example.org/new'')]"

definition not_found :: thrown where
  "not_found =
     AxiosError ''Request failed with status code 404''
       (Some \<lparr>status = 404, data = JObj (fmap_of_list [(''error'', JStr ''webhook not found'')])\<rparr>)"

definition read_only :: thrown where
  "read_only =
     AxiosError ''Request failed with status code 403''
       (Some \<lparr>status = 403, data = JObj (fmap_of_list [(''error'', JStr ''read only'')])\<rparr>)"



definition null_body_error :: thrown where
  "null_body_error =
     AxiosError ''Request failed with status code 500'' (Some \<lparr>status = 500, data = JNull\<rparr>)"

section \<open>Basic facts\<close>

lemmas demo_defs = webhook_store_def idle_def sample_webhook_def fetch_request_def
  write_request_def demo_client_def

lemma axios_eq:
  "axios T r w =
     (fst (T r (server w)),
      \<lparr>server = snd (T r (server w)), calls = calls w @ [(r, fst (T r (server w)))]\<rparr>)"
  by (simp add: axios_def split: prod.splits)

lemma snd_catch: "snd (catch p res) = snd res"
  by (simp add: catch_def split: prod.splits sum.splits)

lemma fst_catch:
  "fst (catch p res) = (case fst res of Inl err \<Rightarrow> Inl (rethrow p err) | Inr v \<Rightarrow> Inr v)"
  by (simp add: catch_def split: prod.splits sum.splits)

lemma getWebhookByID_resolved:
  assumes "T (fetch_request this i) (server w) = (Inr r, s1)"
  shows "getWebhookByID T this i w =
    (Inr (data r), \<lparr>server = s1, calls = calls w @ [(fetch_request this i, Inr r)]\<rparr>)"
  using assms
  by (simp add: getWebhookByID_def catch_def return_data_def axios_get_def axios_eq fetch_request_def)

lemma getWebhookByID_rejected:
  assumes "T (fetch_request this i) (server w) = (Inl err, s1)"
  shows "getWebhookByID T this i w =
    (Inl (rethrow ''error during getWebhookByID: '' err),
     \<lparr>server = s1, calls = calls w @ [(fetch_request this i, Inl err)]\<rparr>)"
  using assms
  by (simp add: getWebhookByID_def catch_def return_data_def axios_get_def axios_eq fetch_request_def)

lemma put_eq:
  "return_data (axios_put T (webhook_url this i) b w) =
     (case fst (T (write_request this i b) (server w)) of
        Inl err \<Rightarrow> Inl err | Inr r \<Rightarrow> Inr (data r),
      \<lparr>server = snd (T (write_request this i b) (server w)),
       calls = calls w @ [(write_request this i b, fst (T (write_request this i b) (server w)))]\<rparr>)"
  by (simp add: return_data_def axios_put_def axios_eq write_request_def split: sum.splits)

lemma concat_only_on_object:
  assumes "get_prop v k = Inr x" and "call_concat x ys = Inr y"
  shows "\<exists>m. v = JObj m"
  using assms by (cases v) auto

lemma fmupd_same: "fmlookup m k = Some v \<Longrightarrow> fmupd k v m = m"
  by (rule fmap_ext) auto

lemma append_try_within:
  assumes "T (fetch_request this i) (server w) = (Inr r, s1)"
    and "data r = JObj W"
    and "fmlookup W ''accountAddresses'' = Some (JArr E)"
    and "length E + length N \<le> 10000"
  shows "appendAddressesToWebhook_try T this i N w =
    return_data (axios_put T (webhook_url this i)
      (JObj (fmupd ''accountAddresses'' (JArr (E @ map JStr N)) W))
      \<lparr>server = s1, calls = calls w @ [(fetch_request this i, Inr r)]\<rparr>)"
  using assms
  by (simp add: appendAddressesToWebhook_try_def getWebhookByID_resolved)

lemma append_try_over:
  assumes "T (fetch_request this i) (server w) = (Inr r, s1)"
    and "data r = JObj W"
    and "fmlookup W ''accountAddresses'' = Some (JArr E)"
    and "length E + length N > 10000"
  shows "appendAddressesToWebhook_try T this i N w =
    (Inl (Error ''Error'' capacity_message),
      \<lparr>server = s1, calls = calls w @ [(fetch_request this i, Inr r)]\<rparr>)"
  using assms
  by (simp add: appendAddressesToWebhook_try_def getWebhookByID_resolved)

subsection \<open>Messages\<close>

lemma name_in_prefix: "sublist name (a @ name @ b)"
  by (rule sublist_appendI)

lemma tagged_intro:
  assumes "msg = p @ X" and "sublist name p"
  shows "tagged name X (Inl (Error ''Error'' msg))"
proof -
  have "sublist name msg"
    using assms by (metis sublist_appendI sublist_order.order_trans sublist_append_rightI)
  moreover have "sublist X msg"
    using assms(1) by (metis sublist_def append_Nil2)
  ultimately show ?thesis by (simp add: tagged_def)
qed

lemma tagged_nested: "tagged name X (Inl (Error ''Error'' (((a @ name @ b) @ c) @ X)))"
proof -
  have "sublist name ((a @ name @ b) @ c)"
    by (metis name_in_prefix append_assoc)
  then show ?thesis
    by (rule tagged_intro [OF refl])
qed

lemma capacity_wrapped:
  "rethrow ''error during appendAddressesToWebhook: '' (Error ''Error'' capacity_message) =
     Error ''Error'' (''error during appendAddressesToWebhook: Error: '' @ capacity_message)"
  by (simp add: error_toString_def capacity_message_def)

lemma rethrow_not_bare:
  "rethrow ''error during appendAddressesToWebhook: '' err \<noteq> Error n capacity_message"
proof (cases err)
  case (AxiosError m ro)
  then show ?thesis
    by (cases ro; cases "data (the ro)")
       (auto simp: capacity_message_def split: option.splits)
next
  case (Error n' m')
  then show ?thesis by (simp add: capacity_message_def)
qed

subsection \<open>Rejected calls\<close>

text \<open>What an operation does when its first call, or the write after a fetch that resolved,
  is rejected with an error that the catch block prints as \<open>X\<close>.\<close>

lemma rethrow_of_structured:
  assumes "structured_error err X"
  shows "rethrow p err = Error ''Error'' (p @ X)"
  using assms
  by (auto simp: structured_error_def split: thrown.splits option.splits jsval.splits)


lemma invoke_first_rejected:
  assumes "T (first_request this c) (server w) = (Inl err, s1)"
    and inner: "\<And>p. rethrow p err = Error ''Error'' (p @ X)"
  shows "invoke T this c w =
    (Inl (Error ''Error'' (thrown_message c X)),
     \<lparr>server = s1, calls = calls w @ [(first_request this c, Inl err)]\<rparr>)"
proof (cases c)
  case GetAllWebhooks
  then show ?thesis
    using assms(1)
    by (simp add: getAllWebhooks_def catch_def return_data_def axios_get_def axios_eq inner)
next
  case (GetWebhookByID i)
  then show ?thesis
    using assms(1) by (simp add: getWebhookByID_rejected inner)
next
  case (CreateWebhook q)
  then show ?thesis
    using assms(1)
    by (simp add: createWebhook_def catch_def return_data_def axios_post_def axios_eq inner)
next
  case (DeleteWebhook i)
  then show ?thesis
    using assms(1)
    by (simp add: deleteWebhook_def catch_def axios_delete_def axios_eq inner)
next
  case (EditWebhook i q)
  then show ?thesis
    using assms(1)
    by (simp add: editWebhook_def editWebhook_try_def catch_def getWebhookByID_rejected inner
        error_toString_def)
next
  case (AppendAddressesToWebhook i xs)
  then show ?thesis
    using assms(1)
    by (simp add: appendAddressesToWebhook_def appendAddressesToWebhook_try_def catch_def
        getWebhookByID_rejected inner error_toString_def)
qed

lemma axios_put_rejected:
  assumes "T (write_request this i b) (server w) = (Inl err, s2)"
  shows "return_data (axios_put T (webhook_url this i) b w) =
    (Inl err, \<lparr>server = s2, calls = calls w @ [(write_request this i b, Inl err)]\<rparr>)"
  using assms by (simp add: put_eq)

lemma edit_write_rejected:
  assumes "T (fetch_request this i) (server w) = (Inr r, s1)"
    and "T (write_request this i (JObj (own_props (data r) ++\<^sub>f q))) s1 = (Inl err, s2)"
    and inner: "\<And>p. rethrow p err = Error ''Error'' (p @ X)"
  shows "editWebhook T this i q w =
    (Inl (Error ''Error'' (''error during editWebhook: '' @ X)),
     \<lparr>server = s2,
      calls = calls w @ [(fetch_request this i, Inr r),
                         (write_request this i (JObj (own_props (data r) ++\<^sub>f q)), Inl err)]\<rparr>)"
  using assms(1,2)
  by (simp add: editWebhook_def editWebhook_try_def catch_def getWebhookByID_resolved
      axios_put_rejected inner)

lemma append_write_rejected:
  assumes "T (fetch_request this i) (server w) = (Inr r, s1)"
    and "data r = JObj W"
    and "fmlookup W ''accountAddresses'' = Some (JArr E)"
    and "length E + length N \<le> 10000"
    and "T (write_request this i (JObj (fmupd ''accountAddresses'' (JArr (E @ map JStr N)) W))) s1 =
           (Inl err, s2)"
    and inner: "\<And>p. rethrow p err = Error ''Error'' (p @ X)"
  shows "appendAddressesToWebhook T this i N w =
    (Inl (Error ''Error'' (''error during appendAddressesToWebhook: '' @ X)),
     \<lparr>server = s2,
      calls = calls w @ [(fetch_request this i, Inr r),
        (write_request this i (JObj (fmupd ''accountAddresses'' (JArr (E @ map JStr N)) W)),
         Inl err)]\<rparr>)"
  using assms(1-5)
  by (simp add: appendAddressesToWebhook_def catch_def append_try_within axios_put_rejected inner)

lemma tagged_literal:
  assumes "sublist name p"
  shows "tagged name X (Inl (Error ''Error'' (p @ X)))"
  using refl assms by (rule tagged_intro)

lemma tagged_thrown_message:
  "tagged (operation_name c) X (Inl (Error ''Error'' (thrown_message c X)))"
  by (cases c) (simp_all add: tagged_literal sublist_code(3) del: append.simps)

subsection \<open>deleteWebhook\<close>

text \<open>\<open>deleteWebhook\<close> resolves to \<open>true\<close> when the DELETE call resolves, and never resolves to
  \<open>false\<close>.\<close>

lemma deleteWebhook_never_false: "fst (deleteWebhook T this i w) \<noteq> Inr False"
  by (auto simp: deleteWebhook_def fst_catch split: prod.splits sum.splits)

lemma deleteWebhook_resolved:
  assumes "T \<lparr>httpMethod = DELETE, url = webhook_url this i, body = None\<rparr> (server w) = (Inr r, s1)"
  shows "fst (deleteWebhook T this i w) = Inr True"
  using assms by (simp add: deleteWebhook_def fst_catch axios_delete_def axios_eq)

section \<open>Appending addresses\<close>

text \<open>C1. When the fetch resolves to a webhook whose address list is \<open>E\<close> and
  \<open>length E + length N \<le> 10000\<close>, \<open>appendAddressesToWebhook\<close> makes exactly two calls, the
  fetch and one PUT, and the address list of the PUT body is \<open>E\<close> followed by \<open>N\<close>: order kept,
  nothing removed, so an address in both lists appears twice. The witness has 9,950 existing
  and 50 new addresses, all equal: 10,000 in total.\<close>

theorem append_writes_concatenation:
  assumes "T (fetch_request this i) (server w) = (Inr r, s1)"
    and "data r = JObj W"
    and "fmlookup W ''accountAddresses'' = Some (JArr E)"
    and "length E + length N \<le> 10000"
  shows "\<exists>B. calls (snd (appendAddressesToWebhook T this i N w)) =
           calls w @ [(fetch_request this i, Inr r),
                      (write_request this i (JObj B), fst (T (write_request this i (JObj B)) s1))]
         \<and> fmlookup B ''accountAddresses'' = Some (JArr (E @ map JStr N))"
proof -
  let ?B = "fmupd ''accountAddresses'' (JArr (E @ map JStr N)) W"
  have "calls (snd (appendAddressesToWebhook T this i N w)) =
          calls w @ [(fetch_request this i, Inr r),
                     (write_request this i (JObj ?B), fst (T (write_request this i (JObj ?B)) s1))]"
    using assms
    by (simp add: appendAddressesToWebhook_def snd_catch append_try_within put_eq)
  moreover have "fmlookup ?B ''accountAddresses'' = Some (JArr (E @ map JStr N))"
    by simp
  ultimately show ?thesis by blast
qed

theorem append_writes_concatenation_witness:
  "\<exists>B. calls (snd (appendAddressesToWebhook webhook_store demo_client ''abc'' (replicate 50 ''addr'')
            (idle (sample_webhook (replicate 9950 (JStr ''addr'')))))) =
         [(fetch_request demo_client ''abc'',
           Inr \<lparr>status = 200, data = JObj (sample_webhook (replicate 9950 (JStr ''addr'')))\<rparr>),
          (write_request demo_client ''abc'' (JObj B), Inr \<lparr>status = 200, data = JObj B\<rparr>)]
       \<and> fmlookup B ''accountAddresses'' =
           Some (JArr (replicate 9950 (JStr ''addr'') @ map JStr (replicate 50 ''addr'')))"
  using append_writes_concatenation [of webhook_store demo_client "''abc''"
      "idle (sample_webhook (replicate 9950 (JStr ''addr'')))"
      "\<lparr>status = 200, data = JObj (sample_webhook (replicate 9950 (JStr ''addr'')))\<rparr>"
      "sample_webhook (replicate 9950 (JStr ''addr''))"
      "sample_webhook (replicate 9950 (JStr ''addr''))"
      "replicate 9950 (JStr ''addr'')" "replicate 50 ''addr''"]
  by (simp add: demo_defs)

text \<open>C2. When \<open>length E + length N > 10000\<close>, the operation rejects with an error tagged
  with its name and carrying the capacity message; the fetch is the only call made, so no
  write is issued and the server is in the state the fetch left.\<close>

theorem append_over_capacity_rejected:
  assumes "T (fetch_request this i) (server w) = (Inr r, s1)"
    and "data r = JObj W"
    and "fmlookup W ''accountAddresses'' = Some (JArr E)"
    and "length E + length N > 10000"
  shows "tagged ''appendAddressesToWebhook'' capacity_message
           (fst (appendAddressesToWebhook T this i N w))
       \<and> snd (appendAddressesToWebhook T this i N w) =
           \<lparr>server = s1, calls = calls w @ [(fetch_request this i, Inr r)]\<rparr>"
proof -
  have name: "sublist ''appendAddressesToWebhook'' ''error during appendAddressesToWebhook: Error: ''"
    by (simp add: sublist_code(3))
  have "fst (appendAddressesToWebhook T this i N w) =
      Inl (Error ''Error'' (''error during appendAddressesToWebhook: Error: '' @ capacity_message))"
    using assms
    by (simp add: appendAddressesToWebhook_def fst_catch append_try_over capacity_wrapped
        del: rethrow.simps)
  moreover have "snd (appendAddressesToWebhook T this i N w) =
      \<lparr>server = s1, calls = calls w @ [(fetch_request this i, Inr r)]\<rparr>"
    using assms by (simp add: appendAddressesToWebhook_def snd_catch append_try_over)
  ultimately show ?thesis
    using tagged_intro [OF refl name] by simp
qed

theorem append_over_capacity_rejected_witness:
  "tagged ''appendAddressesToWebhook'' capacity_message
     (fst (appendAddressesToWebhook webhook_store demo_client ''abc'' (replicate 50 ''addr'')
        (idle (sample_webhook (replicate 9960 (JStr ''addr''))))))
   \<and> snd (appendAddressesToWebhook webhook_store demo_client ''abc'' (replicate 50 ''addr'')
        (idle (sample_webhook (replicate 9960 (JStr ''addr''))))) =
       \<lparr>server = sample_webhook (replicate 9960 (JStr ''addr'')),
        calls = [(fetch_request demo_client ''abc'',
                  Inr \<lparr>status = 200, data = JObj (sample_webhook (replicate 9960 (JStr ''addr'')))\<rparr>)]\<rparr>"
  using append_over_capacity_rejected [of webhook_store demo_client "''abc''"
      "idle (sample_webhook (replicate 9960 (JStr ''addr'')))"
      "\<lparr>status = 200, data = JObj (sample_webhook (replicate 9960 (JStr ''addr'')))\<rparr>"
      "sample_webhook (replicate 9960 (JStr ''addr''))"
      "sample_webhook (replicate 9960 (JStr ''addr''))"
      "replicate 9960 (JStr ''addr'')" "replicate 50 ''addr''"]
  by (simp add: demo_defs)

text \<open>C6. On the capacity failure the operation has made exactly one call, and it is a GET:
  no write is attempted, but the fetch that precedes the check is.\<close>

theorem capacity_failure_only_fetches:
  assumes "T (fetch_request this i) (server w) = (Inr r, s1)"
    and "data r = JObj W"
    and "fmlookup W ''accountAddresses'' = Some (JArr E)"
    and "length E + length N > 10000"
  shows "map (httpMethod \<circ> fst) (drop (length (calls w))
           (calls (snd (appendAddressesToWebhook T this i N w)))) = [GET]"
  using assms
  by (simp add: appendAddressesToWebhook_def snd_catch append_try_over fetch_request_def)

theorem capacity_failure_only_fetches_witness:
  "map (httpMethod \<circ> fst) (drop (length (calls (idle (sample_webhook (replicate 9960 (JStr ''addr''))))))
     (calls (snd (appendAddressesToWebhook webhook_store demo_client ''abc'' (replicate 50 ''addr'')
        (idle (sample_webhook (replicate 9960 (JStr ''addr'')))))))) = [GET]"
  using capacity_failure_only_fetches [of webhook_store demo_client "''abc''"
      "idle (sample_webhook (replicate 9960 (JStr ''addr'')))"
      "\<lparr>status = 200, data = JObj (sample_webhook (replicate 9960 (JStr ''addr'')))\<rparr>"
      "sample_webhook (replicate 9960 (JStr ''addr''))"
      "sample_webhook (replicate 9960 (JStr ''addr''))"
      "replicate 9960 (JStr ''addr'')" "replicate 50 ''addr''"]
  by (simp add: demo_defs)

text \<open>That no call at all is made does not hold: with 9,960 stored addresses and 50 new ones
  the operation fails on the cap after one GET.\<close>

theorem capacity_failure_after_fetch:
  "tagged ''appendAddressesToWebhook'' capacity_message
     (fst (appendAddressesToWebhook webhook_store demo_client ''abc'' (replicate 50 ''addr'')
        (idle (sample_webhook (replicate 9960 (JStr ''addr''))))))
   \<and> map (httpMethod \<circ> fst)
       (calls (snd (appendAddressesToWebhook webhook_store demo_client ''abc'' (replicate 50 ''addr'')
          (idle (sample_webhook (replicate 9960 (JStr ''addr''))))))) = [GET]"
proof -
  have "appendAddressesToWebhook_try webhook_store demo_client ''abc'' (replicate 50 ''addr'')
          (idle (sample_webhook (replicate 9960 (JStr ''addr'')))) =
        (Inl (Error ''Error'' capacity_message),
         \<lparr>server = sample_webhook (replicate 9960 (JStr ''addr'')),
          calls = [(fetch_request demo_client ''abc'',
            Inr \<lparr>status = 200, data = JObj (sample_webhook (replicate 9960 (JStr ''addr'')))\<rparr>)]\<rparr>)"
    using append_try_over [of webhook_store demo_client "''abc''"
      "idle (sample_webhook (replicate 9960 (JStr ''addr'')))"
      "\<lparr>status = 200, data = JObj (sample_webhook (replicate 9960 (JStr ''addr'')))\<rparr>"
      "sample_webhook (replicate 9960 (JStr ''addr''))"
      "sample_webhook (replicate 9960 (JStr ''addr''))"
      "replicate 9960 (JStr ''addr'')" "replicate 50 ''addr''"]
    by (simp add: demo_defs)
  then show ?thesis
    using tagged_nested [of "''appendAddressesToWebhook''" capacity_message "''error during ''" "'': ''" "''Error: ''"]
    by (simp add: appendAddressesToWebhook_def fst_catch snd_catch capacity_wrapped fetch_request_def
        del: rethrow.simps)
qed

text \<open>C8. Within the cap, the PUT body has the fields of the fetched webhook, each with its
  fetched value except \<open>accountAddresses\<close>.\<close>

theorem append_keeps_other_fields:
  assumes "T (fetch_request this i) (server w) = (Inr r, s1)"
    and "data r = JObj W"
    and "fmlookup W ''accountAddresses'' = Some (JArr E)"
    and "length E + length N \<le> 10000"
  shows "\<exists>B. calls (snd (appendAddressesToWebhook T this i N w)) =
           calls w @ [(fetch_request this i, Inr r),
                      (write_request this i (JObj B), fst (T (write_request this i (JObj B)) s1))]
         \<and> fmdom B = fmdom W
         \<and> (\<forall>k. k \<noteq> ''accountAddresses'' \<longrightarrow> fmlookup B k = fmlookup W k)"
proof -
  let ?B = "fmupd ''accountAddresses'' (JArr (E @ map JStr N)) W"
  have "calls (snd (appendAddressesToWebhook T this i N w)) =
          calls w @ [(fetch_request this i, Inr r),
                     (write_request this i (JObj ?B), fst (T (write_request this i (JObj ?B)) s1))]"
    using assms
    by (simp add: appendAddressesToWebhook_def snd_catch append_try_within put_eq)
  moreover have "\<forall>k. k \<noteq> ''accountAddresses'' \<longrightarrow> fmlookup ?B k = fmlookup W k"
    by simp
  moreover have "fmdom ?B = fmdom W"
    using assms(3) by (auto simp: fmlookup_dom_iff)
  ultimately show ?thesis by blast
qed

theorem append_keeps_other_fields_witness:
  "\<exists>B. calls (snd (appendAddressesToWebhook webhook_store demo_client ''abc'' [''addr2'']
            (idle (sample_webhook [JStr ''addr1''])))) =
         [(fetch_request demo_client ''abc'',
           Inr \<lparr>status = 200, data = JObj (sample_webhook [JStr ''addr1''])\<rparr>),
          (write_request demo_client ''abc'' (JObj B), Inr \<lparr>status = 200, data = JObj B\<rparr>)]
       \<and> fmdom B = fmdom (sample_webhook [JStr ''addr1''])
       \<and> fmlookup B ''webhookID'' = Some (JStr ''abc'')
       \<and> fmlookup B ''webhookURL'' = Some (JStr ''https://example.com/hook'')"
proof -
  obtain B where
    "calls (snd (appendAddressesToWebhook webhook_store demo_client ''abc'' [''addr2'']
        (idle (sample_webhook [JStr ''addr1''])))) =
       calls (idle (sample_webhook [JStr ''addr1''])) @
       [(fetch_request demo_client ''abc'',
         Inr \<lparr>status = 200, data = JObj (sample_webhook [JStr ''addr1''])\<rparr>),
        (write_request demo_client ''abc'' (JObj B),
         fst (webhook_store (write_request demo_client ''abc'' (JObj B)) (sample_webhook [JStr ''addr1''])))]"
    and "fmdom B = fmdom (sample_webhook [JStr ''addr1''])"
    and "\<forall>k. k \<noteq> ''accountAddresses'' \<longrightarrow> fmlookup B k = fmlookup (sample_webhook [JStr ''addr1'']) k"
    using append_keeps_other_fields [of webhook_store demo_client "''abc''"
      "idle (sample_webhook [JStr ''addr1''])"
      "\<lparr>status = 200, data = JObj (sample_webhook [JStr ''addr1''])\<rparr>"
      "sample_webhook [JStr ''addr1'']" "sample_webhook [JStr ''addr1'']"
      "[JStr ''addr1'']" "[''addr2'']"]
    by (auto simp: demo_defs)
  then show ?thesis
    by (intro exI [of _ B]) (simp add: demo_defs)
qed

text \<open>C9. The capacity error thrown inside the \<open>try\<close> is caught by the operation's own catch
  block and leaves as \<open>error during appendAddressesToWebhook: Error: \<close> followed by the
  capacity message; no rejection of the operation has the bare capacity message.\<close>

theorem capacity_error_rewrapped:
  "(fst (appendAddressesToWebhook_try T this i N w) = Inl (Error ''Error'' capacity_message) \<longrightarrow>
      fst (appendAddressesToWebhook T this i N w) =
        Inl (Error ''Error'' (''error during appendAddressesToWebhook: Error: '' @ capacity_message)))
   \<and> fst (appendAddressesToWebhook T this i N w) \<noteq> Inl (Error n capacity_message)"
proof -
  have "fst (appendAddressesToWebhook T this i N w) \<noteq> Inl (Error n capacity_message)"
    using rethrow_not_bare
    by (auto simp: appendAddressesToWebhook_def fst_catch simp del: rethrow.simps split: sum.splits)
  then show ?thesis
    by (simp add: appendAddressesToWebhook_def fst_catch capacity_wrapped del: rethrow.simps)
qed

theorem capacity_error_rewrapped_witness:
  "fst (appendAddressesToWebhook_try webhook_store demo_client ''abc'' (replicate 50 ''addr'')
        (idle (sample_webhook (replicate 9960 (JStr ''addr''))))) =
     Inl (Error ''Error'' capacity_message)
   \<and> fst (appendAddressesToWebhook webhook_store demo_client ''abc'' (replicate 50 ''addr'')
        (idle (sample_webhook (replicate 9960 (JStr ''addr''))))) =
     Inl (Error ''Error'' (''error during appendAddressesToWebhook: Error: '' @ capacity_message))"
proof -
  have "fst (appendAddressesToWebhook_try webhook_store demo_client ''abc'' (replicate 50 ''addr'')
        (idle (sample_webhook (replicate 9960 (JStr ''addr''))))) =
     Inl (Error ''Error'' capacity_message)"
    by (simp add: appendAddressesToWebhook_try_def getWebhookByID_def catch_def return_data_def
        axios_get_def axios_eq demo_defs)
  then show ?thesis
    using capacity_error_rewrapped [of webhook_store demo_client "''abc''" "replicate 50 ''addr''"
        "idle (sample_webhook (replicate 9960 (JStr ''addr'')))"]
    by blast
qed

text \<open>C10. With an empty input list and at most 10,000 existing addresses the operation still
  makes the fetch and the PUT; the PUT body is the fetched webhook itself, and when the PUT
  resolves the operation resolves to the data of that response.\<close>

theorem append_empty_still_writes:
  assumes "T (fetch_request this i) (server w) = (Inr r, s1)"
    and "data r = JObj W"
    and "fmlookup W ''accountAddresses'' = Some (JArr E)"
    and "length E \<le> 10000"
  shows "calls (snd (appendAddressesToWebhook T this i [] w)) =
           calls w @ [(fetch_request this i, Inr r),
                      (write_request this i (JObj W), fst (T (write_request this i (JObj W)) s1))]
       \<and> (\<forall>r2. fst (T (write_request this i (JObj W)) s1) = Inr r2 \<longrightarrow>
                fst (appendAddressesToWebhook T this i [] w) = Inr (data r2))"
proof -
  have "appendAddressesToWebhook_try T this i [] w =
    return_data (axios_put T (webhook_url this i) (JObj W)
      \<lparr>server = s1, calls = calls w @ [(fetch_request this i, Inr r)]\<rparr>)"
    using append_try_within [of T this i w r s1 W E "[]"] assms
    by (simp add: fmupd_same)
  then show ?thesis
    by (simp add: appendAddressesToWebhook_def snd_catch fst_catch put_eq)
qed

theorem append_empty_still_writes_witness:
  "calls (snd (appendAddressesToWebhook webhook_store demo_client ''abc'' []
       (idle (sample_webhook [JStr ''addr1''])))) =
     [(fetch_request demo_client ''abc'',
       Inr \<lparr>status = 200, data = JObj (sample_webhook [JStr ''addr1''])\<rparr>),
      (write_request demo_client ''abc'' (JObj (sample_webhook [JStr ''addr1''])),
       Inr \<lparr>status = 200, data = JObj (sample_webhook [JStr ''addr1''])\<rparr>)]
   \<and> fst (appendAddressesToWebhook webhook_store demo_client ''abc'' []
       (idle (sample_webhook [JStr ''addr1'']))) = Inr (JObj (sample_webhook [JStr ''addr1'']))"
  using append_empty_still_writes [of webhook_store demo_client "''abc''"
      "idle (sample_webhook [JStr ''addr1''])"
      "\<lparr>status = 200, data = JObj (sample_webhook [JStr ''addr1''])\<rparr>"
      "sample_webhook [JStr ''addr1'']" "sample_webhook [JStr ''addr1'']" "[JStr ''addr1'']"]
  by (simp add: demo_defs)

section \<open>Editing\<close>

text \<open>C3. When the fetch resolves to webhook \<open>W\<close>, \<open>editWebhook\<close> makes the fetch and one PUT
  whose body is the whole merged object: a field of the request has the request's value,
  every other field has the value of \<open>W\<close>.\<close>

theorem edit_sends_shallow_merge:
  assumes "T (fetch_request this i) (server w) = (Inr r, s1)"
    and "data r = JObj W"
  shows "calls (snd (editWebhook T this i P w)) =
           calls w @ [(fetch_request this i, Inr r),
                      (write_request this i (JObj (W ++\<^sub>f P)),
                       fst (T (write_request this i (JObj (W ++\<^sub>f P))) s1))]
       \<and> (\<forall>k. fmlookup (W ++\<^sub>f P) k =
               (case fmlookup P k of Some v \<Rightarrow> Some v | None \<Rightarrow> fmlookup W k))"
proof -
  have "\<forall>k. fmlookup (W ++\<^sub>f P) k = (case fmlookup P k of Some v \<Rightarrow> Some v | None \<Rightarrow> fmlookup W k)"
    by (auto simp: fmlookup_dom_iff split: option.splits)
  then show ?thesis
    using assms
    by (simp add: editWebhook_def editWebhook_try_def snd_catch getWebhookByID_resolved put_eq)
qed

theorem edit_sends_shallow_merge_witness:
  "calls (snd (editWebhook webhook_store demo_client ''abc'' url_patch
       (idle (sample_webhook [JStr ''addr1''])))) =
     [(fetch_request demo_client ''abc'',
       Inr \<lparr>status = 200, data = JObj (sample_webhook [JStr ''addr1''])\<rparr>),
      (write_request demo_client ''abc'' (JObj (sample_webhook [JStr ''addr1''] ++\<^sub>f url_patch)),
       Inr \<lparr>status = 200, data = JObj (sample_webhook [JStr ''addr1''] ++\<^sub>f url_patch)\<rparr>)]
   \<and> fmlookup (sample_webhook [JStr ''addr1''] ++\<^sub>f url_patch) ''webhookURL'' =
       Some (JStr ''https://example.org/new'')
   \<and> fmlookup (sample_webhook [JStr ''addr1''] ++\<^sub>f url_patch) ''webhookID'' = Some (JStr ''abc'')
   \<and> fmlookup (sample_webhook [JStr ''addr1''] ++\<^sub>f url_patch) ''accountAddresses'' =
       Some (JArr [JStr ''addr1''])"
  using edit_sends_shallow_merge [of webhook_store demo_client "''abc''"
      "idle (sample_webhook [JStr ''addr1''])"
      "\<lparr>status = 200, data = JObj (sample_webhook [JStr ''addr1''])\<rparr>"
      "sample_webhook [JStr ''addr1'']" "sample_webhook [JStr ''addr1'']" url_patch]
  by (simp add: demo_defs url_patch_def)

section \<open>Error wrapping\<close>

text \<open>C4. For each of the six operations: when the backend rejects the operation's first call
  with a server-reported error whose \<open>error\<close> field is \<open>X\<close>, the call has been made, nothing is
  called after it, and the operation rejects with an \<open>Error\<close> whose message contains the
  operation's name and \<open>X\<close>. The same holds when the fetch of \<open>editWebhook\<close> or of
  \<open>appendAddressesToWebhook\<close> resolves and the backend rejects the write.\<close>

theorem server_error_wrapped:
  assumes "structured_error err X"
  shows "(T (first_request this c) (server w) = (Inl err, s1) \<longrightarrow>
            tagged (operation_name c) X (fst (invoke T this c w))
          \<and> snd (invoke T this c w) =
              \<lparr>server = s1, calls = calls w @ [(first_request this c, Inl err)]\<rparr>)
       \<and> (T (fetch_request this i) (server w) = (Inr r, s1)
          \<and> T (write_request this i (JObj (own_props (data r) ++\<^sub>f q))) s1 = (Inl err, s2) \<longrightarrow>
            tagged ''editWebhook'' X (fst (editWebhook T this i q w))
          \<and> snd (editWebhook T this i q w) =
              \<lparr>server = s2,
               calls = calls w @ [(fetch_request this i, Inr r),
                 (write_request this i (JObj (own_props (data r) ++\<^sub>f q)), Inl err)]\<rparr>)
       \<and> (T (fetch_request this i) (server w) = (Inr r, s1)
          \<and> data r = JObj W \<and> fmlookup W ''accountAddresses'' = Some (JArr E)
          \<and> length E + length N \<le> 10000
          \<and> T (write_request this i
                 (JObj (fmupd ''accountAddresses'' (JArr (E @ map JStr N)) W))) s1 = (Inl err, s2) \<longrightarrow>
            tagged ''appendAddressesToWebhook'' X (fst (appendAddressesToWebhook T this i N w))
          \<and> snd (appendAddressesToWebhook T this i N w) =
              \<lparr>server = s2,
               calls = calls w @ [(fetch_request this i, Inr r),
                 (write_request this i
                    (JObj (fmupd ''accountAddresses'' (JArr (E @ map JStr N)) W)), Inl err)]\<rparr>)"
proof -
  note inner = rethrow_of_structured [OF assms]
  have edit_name: "sublist ''editWebhook'' ''error during editWebhook: ''"
    by (simp add: sublist_code(3))
  have append_name:
    "sublist ''appendAddressesToWebhook'' ''error during appendAddressesToWebhook: ''"
    by (simp add: sublist_code(3))
  show ?thesis
  proof (intro conjI impI)
    assume "T (first_request this c) (server w) = (Inl err, s1)"
    then have "invoke T this c w =
        (Inl (Error ''Error'' (thrown_message c X)),
         \<lparr>server = s1, calls = calls w @ [(first_request this c, Inl err)]\<rparr>)"
      using inner by (rule invoke_first_rejected)
    then show "tagged (operation_name c) X (fst (invoke T this c w))"
      and "snd (invoke T this c w) =
        \<lparr>server = s1, calls = calls w @ [(first_request this c, Inl err)]\<rparr>"
      by (simp_all only: fst_conv snd_conv tagged_thrown_message)
  next
    assume a: "T (fetch_request this i) (server w) = (Inr r, s1)
          \<and> T (write_request this i (JObj (own_props (data r) ++\<^sub>f q))) s1 = (Inl err, s2)"
    have "editWebhook T this i q w =
        (Inl (Error ''Error'' (''error during editWebhook: '' @ X)),
         \<lparr>server = s2,
          calls = calls w @ [(fetch_request this i, Inr r),
            (write_request this i (JObj (own_props (data r) ++\<^sub>f q)), Inl err)]\<rparr>)"
      by (rule edit_write_rejected [OF conjunct1 [OF a] conjunct2 [OF a] inner])
    then show "tagged ''editWebhook'' X (fst (editWebhook T this i q w))"
      and "snd (editWebhook T this i q w) =
        \<lparr>server = s2,
         calls = calls w @ [(fetch_request this i, Inr r),
           (write_request this i (JObj (own_props (data r) ++\<^sub>f q)), Inl err)]\<rparr>"
      by (simp_all only: fst_conv snd_conv tagged_literal [OF edit_name])
  next
    assume a: "T (fetch_request this i) (server w) = (Inr r, s1)
          \<and> data r = JObj W \<and> fmlookup W ''accountAddresses'' = Some (JArr E)
          \<and> length E + length N \<le> 10000
          \<and> T (write_request this i
                 (JObj (fmupd ''accountAddresses'' (JArr (E @ map JStr N)) W))) s1 = (Inl err, s2)"
    have h1: "T (fetch_request this i) (server w) = (Inr r, s1)"
      and h2: "data r = JObj W"
      and h3: "fmlookup W ''accountAddresses'' = Some (JArr E)"
      and h4: "length E + length N \<le> 10000"
      and h5: "T (write_request this i
                 (JObj (fmupd ''accountAddresses'' (JArr (E @ map JStr N)) W))) s1 = (Inl err, s2)"
      using a by simp_all
    have "appendAddressesToWebhook T this i N w =
        (Inl (Error ''Error'' (''error during appendAddressesToWebhook: '' @ X)),
         \<lparr>server = s2,
          calls = calls w @ [(fetch_request this i, Inr r),
            (write_request this i
               (JObj (fmupd ''accountAddresses'' (JArr (E @ map JStr N)) W)), Inl err)]\<rparr>)"
      by (rule append_write_rejected [OF h1 h2 h3 h4 h5 inner])
    then show "tagged ''appendAddressesToWebhook'' X (fst (appendAddressesToWebhook T this i N w))"
      and "snd (appendAddressesToWebhook T this i N w) =
        \<lparr>server = s2,
         calls = calls w @ [(fetch_request this i, Inr r),
           (write_request this i
              (JObj (fmupd ''accountAddresses'' (JArr (E @ map JStr N)) W)), Inl err)]\<rparr>"
      by (simp_all only: fst_conv snd_conv tagged_literal [OF append_name])
  qed
qed

theorem server_error_wrapped_witness:
  "tagged ''getWebhooks'' ''webhook not found''
     (fst (invoke (rejecting not_found) demo_client GetAllWebhooks (idle ())))
   \<and> tagged ''getWebhookByID'' ''webhook not found''
     (fst (invoke (rejecting not_found) demo_client (GetWebhookByID ''abc'') (idle ())))
   \<and> tagged ''createWebhook'' ''webhook not found''
     (fst (invoke (rejecting not_found) demo_client (CreateWebhook url_patch) (idle ())))
   \<and> tagged ''deleteWebhook'' ''webhook not found''
     (fst (invoke (rejecting not_found) demo_client (DeleteWebhook ''abc'') (idle ())))
   \<and> tagged ''editWebhook'' ''webhook not found''
     (fst (invoke (rejecting not_found) demo_client (EditWebhook ''abc'' url_patch) (idle ())))
   \<and> tagged ''appendAddressesToWebhook'' ''webhook not found''
     (fst (invoke (rejecting not_found) demo_client
        (AppendAddressesToWebhook ''abc'' [''addr2'']) (idle ())))
   \<and> calls (snd (invoke (rejecting not_found) demo_client (CreateWebhook url_patch) (idle ()))) =
       [(first_request demo_client (CreateWebhook url_patch), Inl not_found)]
   \<and> tagged ''editWebhook'' ''read only''
     (fst (editWebhook (rejecting_writes read_only) demo_client ''abc'' url_patch
        (idle (sample_webhook [JStr ''addr1'']))))
   \<and> map (httpMethod \<circ> fst)
       (calls (snd (editWebhook (rejecting_writes read_only) demo_client ''abc'' url_patch
          (idle (sample_webhook [JStr ''addr1'']))))) = [GET, PUT]
   \<and> tagged ''appendAddressesToWebhook'' ''read only''
     (fst (appendAddressesToWebhook (rejecting_writes read_only) demo_client ''abc'' [''addr2'']
        (idle (sample_webhook [JStr ''addr1'']))))
   \<and> map (httpMethod \<circ> fst)
       (calls (snd (appendAddressesToWebhook (rejecting_writes read_only) demo_client ''abc''
          [''addr2''] (idle (sample_webhook [JStr ''addr1'']))))) = [GET, PUT]"
proof -
  have nf: "structured_error not_found ''webhook not found''"
    by (simp add: structured_error_def not_found_def)
  have ro: "structured_error read_only ''read only''"
    by (simp add: structured_error_def read_only_def)
  note first = server_error_wrapped [OF nf, THEN conjunct1, rule_format,
      where T = "rejecting not_found" and this = demo_client and w = "idle ()" and ?s1.0 = "()"]
  note edit = server_error_wrapped [OF ro, THEN conjunct2, THEN conjunct1, rule_format,
      where T = "rejecting_writes read_only" and this = demo_client and i = "''abc''"
        and w = "idle (sample_webhook [JStr ''addr1''])"
        and r = "\<lparr>status = 200, data = JObj (sample_webhook [JStr ''addr1''])\<rparr>"
        and ?s1.0 = "sample_webhook [JStr ''addr1'']" and ?s2.0 = "sample_webhook [JStr ''addr1'']"
        and q = url_patch]
  note append = server_error_wrapped [OF ro, THEN conjunct2, THEN conjunct2, rule_format,
      where T = "rejecting_writes read_only" and this = demo_client and i = "''abc''"
        and w = "idle (sample_webhook [JStr ''addr1''])"
        and r = "\<lparr>status = 200, data = JObj (sample_webhook [JStr ''addr1''])\<rparr>"
        and ?s1.0 = "sample_webhook [JStr ''addr1'']" and ?s2.0 = "sample_webhook [JStr ''addr1'']"
        and W = "sample_webhook [JStr ''addr1'']" and E = "[JStr ''addr1'']" and N = "[''addr2'']"]
  have 1: "tagged ''getWebhooks'' ''webhook not found''
     (fst (invoke (rejecting not_found) demo_client GetAllWebhooks (idle ())))"
    using first [where c = GetAllWebhooks] by (simp add: rejecting_def)
  have 2: "tagged ''getWebhookByID'' ''webhook not found''
     (fst (invoke (rejecting not_found) demo_client (GetWebhookByID ''abc'') (idle ())))"
    using first [where c = "GetWebhookByID ''abc''"] by (simp add: rejecting_def)
  have 3: "tagged ''createWebhook'' ''webhook not found''
       (fst (invoke (rejecting not_found) demo_client (CreateWebhook url_patch) (idle ())))
     \<and> calls (snd (invoke (rejecting not_found) demo_client (CreateWebhook url_patch) (idle ()))) =
       [(first_request demo_client (CreateWebhook url_patch), Inl not_found)]"
    using first [where c = "CreateWebhook url_patch"] by (simp add: rejecting_def idle_def)
  have 4: "tagged ''deleteWebhook'' ''webhook not found''
     (fst (invoke (rejecting not_found) demo_client (DeleteWebhook ''abc'') (idle ())))"
    using first [where c = "DeleteWebhook ''abc''"] by (simp add: rejecting_def)
  have 5: "tagged ''editWebhook'' ''webhook not found''
     (fst (invoke (rejecting not_found) demo_client (EditWebhook ''abc'' url_patch) (idle ())))"
    using first [where c = "EditWebhook ''abc'' url_patch"] by (simp add: rejecting_def)
  have 6: "tagged ''appendAddressesToWebhook'' ''webhook not found''
     (fst (invoke (rejecting not_found) demo_client
        (AppendAddressesToWebhook ''abc'' [''addr2'']) (idle ())))"
    using first [where c = "AppendAddressesToWebhook ''abc'' [''addr2'']"]
    by (simp add: rejecting_def)
  have 7: "tagged ''editWebhook'' ''read only''
       (fst (editWebhook (rejecting_writes read_only) demo_client ''abc'' url_patch
          (idle (sample_webhook [JStr ''addr1'']))))
     \<and> map (httpMethod \<circ> fst)
         (calls (snd (editWebhook (rejecting_writes read_only) demo_client ''abc'' url_patch
            (idle (sample_webhook [JStr ''addr1'']))))) = [GET, PUT]"
    using edit
    by (simp add: rejecting_writes_def idle_def fetch_request_def write_request_def)
  have 8: "tagged ''appendAddressesToWebhook'' ''read only''
       (fst (appendAddressesToWebhook (rejecting_writes read_only) demo_client ''abc'' [''addr2'']
          (idle (sample_webhook [JStr ''addr1'']))))
     \<and> map (httpMethod \<circ> fst)
         (calls (snd (appendAddressesToWebhook (rejecting_writes read_only) demo_client ''abc''
            [''addr2''] (idle (sample_webhook [JStr ''addr1'']))))) = [GET, PUT]"
    using append
    by (simp add: rejecting_writes_def idle_def fetch_request_def write_request_def
        sample_webhook_def)
  from 1 2 3 4 5 6 7 8 show ?thesis
    by (simp only: simp_thms)
qed




text \<open>C7. Every failure of \<open>deleteWebhook\<close> should be thrown tagged with the operation name.
  When the server answers with an error status and the JSON body \<open>null\<close>, the property read
  \<open>.data.error\<close> in the catch block throws, and the TypeError that leaves the operation does
  not name it.\<close>

theorem delete_null_error_body:
  "fst (deleteWebhook (rejecting null_body_error) demo_client ''abc'' (idle ())) =
     Inl (Error ''TypeError'' (''Cannot read properties of null (reading '' @ quoted ''error'' @ '')''))
   \<and> \<not> sublist ''deleteWebhook''
        (''Cannot read properties of null (reading '' @ quoted ''error'' @ '')'')"
  by (simp add: deleteWebhook_def fst_catch axios_delete_def axios_eq rejecting_def
      null_body_error_def quoted_def sublist_code(3))

end
